theory Spec2Isabelle
  imports Complex_Main
begin

section \<open>Ferment status: the embedding of \<open>src/server.js\<close>\<close>

text \<open>
  The development covers the two helpers of \<open>server.js\<close> that decide a ferment's status:
  \<open>locationMultiplier\<close> (lines 17-27) and \<open>calculateFermentStatus\<close> (lines 30-86).

  Conventions of the embedding.
  \<^item> A JavaScript \<open>Date\<close> is its time value: an integer number of milliseconds, or
    \<open>NaN\<close> for an invalid date. \<open>last_fed_at\<close> is an \<open>int option\<close>, \<open>None\<close> being
    the value that \<open>new Date\<close> turns into an invalid date. The \<open>created_at\<close> of an event
    and the reference time \<open>now\<close> are valid instants (\<open>int\<close>): the events are rows of
    \<open>ferment_events\<close> and \<open>now\<close> is \<open>new Date()\<close>; on valid instants the comparator
    handed to \<open>sort\<close> is consistent, so the stable sort has one result.
  \<^item> A JavaScript number is idealised as an exact \<open>real\<close>: the rounding of doubles is
    not modelled. The quotient \<open>stressUnits / baseInterval\<close> is the one place where the
    code can leave the finite numbers, so \<open>ratio\<close> is a \<open>jsnum\<close> with the two
    infinities and \<open>NaN\<close>.
  \<^item> A location is a \<open>string option\<close>, \<open>None\<close> being \<open>null\<close>.
\<close>

subsection \<open>Data\<close>

datatype jsnum = Fin real | PosInf | NegInf | NaN

record ferment =
  base_feed_interval_hours :: real
  last_fed_at :: "int option"
  storage_location :: "string option"

record move_event =
  created_at :: int
  new_storage_location :: "string option"

record status =
  stress :: real
  ratio :: jsnum
  label :: string

subsection \<open>JavaScript arithmetic used by the code\<close>

text \<open>Division of two finite numbers: a zero divisor gives an infinity or \<open>NaN\<close>.\<close>

definition js_div :: "real \<Rightarrow> real \<Rightarrow> jsnum" where
  "js_div a b =
     (if b = 0 then (if a = 0 then NaN else if 0 < a then PosInf else NegInf)
      else Fin (a / b))"

fun isFinite :: "jsnum \<Rightarrow> bool" where
  "isFinite (Fin r) = True"
| "isFinite PosInf = False"
| "isFinite NegInf = False"
| "isFinite NaN = False"

text \<open>The comparison \<open>x < c\<close> against a finite constant; every comparison with \<open>NaN\<close> is false.\<close>

fun js_less :: "jsnum \<Rightarrow> real \<Rightarrow> bool" where
  "js_less (Fin r) c = (r < c)"
| "js_less PosInf c = False"
| "js_less NegInf c = True"
| "js_less NaN c = False"

text \<open>Truthiness of \<open>ev.new_storage_location\<close>: \<open>null\<close> and the empty string are falsy.\<close>

fun truthy :: "string option \<Rightarrow> bool" where
  "truthy None = False"
| "truthy (Some s) = (s \<noteq> [])"

subsection \<open>The location speed model\<close>

definition locationMultiplier :: "string option \<Rightarrow> real" where
  "locationMultiplier location =
     (if location = Some ''counter'' then 1
      else if location = Some ''fridge'' then 1 / 3
      else 1)"

subsection \<open>The stress accumulator\<close>

text \<open>\<open>(t - cursor) / 36e5\<close>: the hours from \<open>cursor\<close> to \<open>t\<close>.\<close>

definition hoursBetween :: "int \<Rightarrow> int \<Rightarrow> real" where
  "hoursBetween cursor t = real_of_int (t - cursor) / 3600000"

text \<open>
  The \<open>for (const ev of events)\<close> loop of lines 50-64, on the three variables it
  updates: \<open>cursor\<close>, \<open>currentLocation\<close> and \<open>stressUnits\<close>.
\<close>

fun segments :: "int \<Rightarrow> string option \<Rightarrow> real \<Rightarrow> move_event list \<Rightarrow> int \<times> string option \<times> real" where
  "segments cursor currentLocation stressUnits [] = (cursor, currentLocation, stressUnits)"
| "segments cursor currentLocation stressUnits (ev # events) =
     (let t = created_at ev in
      if t \<le> cursor then segments cursor currentLocation stressUnits events
      else
        let hours = hoursBetween cursor t;
            stressUnits' = (if 0 < hours
                            then stressUnits + hours * locationMultiplier currentLocation
                            else stressUnits);
            currentLocation' = (if truthy (new_storage_location ev)
                                then new_storage_location ev
                                else currentLocation)
        in segments t currentLocation' stressUnits' events)"

text \<open>The label chain of lines 74-83.\<close>

definition statusLabel :: "jsnum \<Rightarrow> string" where
  "statusLabel r =
     (if \<not> isFinite r then ''unknown''
      else if js_less r (7 / 10) then ''happy''
      else if js_less r 1 then ''due_soon''
      else ''needs_feed'')"

text \<open>
  \<open>moveEvents.slice().sort(...)\<close> is the stable sort by \<open>created_at\<close>, which is
  \<^const>\<open>sort_key\<close>.
\<close>

definition calculateFermentStatus :: "ferment \<Rightarrow> move_event list \<Rightarrow> int \<Rightarrow> status" where
  "calculateFermentStatus f moveEvents now =
     (case last_fed_at f of
        None \<Rightarrow> \<lparr>stress = 0, ratio = Fin 0, label = ''unknown''\<rparr>
      | Some lastFed \<Rightarrow>
          (case segments lastFed (storage_location f) 0 (sort_key created_at moveEvents) of
             (cursor, currentLocation, stressUnits) \<Rightarrow>
               let hoursFinal = hoursBetween cursor now;
                   stressUnits' = (if 0 < hoursFinal
                                   then stressUnits + hoursFinal * locationMultiplier currentLocation
                                   else stressUnits);
                   ratio = js_div stressUnits' (base_feed_interval_hours f)
               in \<lparr>stress = stressUnits', ratio = ratio, label = statusLabel ratio\<rparr>))"

section \<open>Properties of the loop\<close>

lemma locationMultiplier_pos: "0 < locationMultiplier loc"
  by (simp add: locationMultiplier_def)


lemma hoursBetween_pos_iff: "0 < hoursBetween c t \<longleftrightarrow> c < t"
  by (simp add: hoursBetween_def)


lemma hoursBetween_mono: "t \<le> t' \<Longrightarrow> hoursBetween c t \<le> hoursBetween c t'"
  by (simp add: hoursBetween_def divide_right_mono)




lemma segments_stress_mono: "s \<le> snd (snd (segments c loc s evs))"
proof (induction evs arbitrary: c loc s)
  case Nil
  show ?case by simp
next
  case (Cons ev evs)
  show ?case
  proof (cases "created_at ev \<le> c")
    case True
    then show ?thesis using Cons.IH [of s c loc] by simp
  next
    case False
    let ?s' = "s + hoursBetween c (created_at ev) * locationMultiplier loc"
    let ?loc' = "if truthy (new_storage_location ev) then new_storage_location ev else loc"
    from False have h: "0 < hoursBetween c (created_at ev)"
      by (simp add: hoursBetween_pos_iff)
    then have "0 \<le> hoursBetween c (created_at ev) * locationMultiplier loc"
      using locationMultiplier_pos [of loc] by (simp)
    then have "s \<le> ?s'" by simp
    also have "?s' \<le> snd (snd (segments (created_at ev) ?loc' ?s' evs))"
      by (rule Cons.IH)
    also have "\<dots> = snd (snd (segments c loc s (ev # evs)))"
      using False h by (simp add: Let_def)
    finally show ?thesis .
  qed
qed


lemma segments_filter:
  "L \<le> c \<Longrightarrow> segments c loc s (filter (\<lambda>e. L < created_at e) evs) = segments c loc s evs"
proof (induction evs arbitrary: c loc s)
  case Nil
  show ?case by simp
next
  case (Cons ev evs)
  show ?case
  proof (cases "created_at ev \<le> c")
    case True
    then show ?thesis using Cons.IH [OF Cons.prems] by simp
  next
    case False
    with Cons.prems have keep: "L < created_at ev" and le: "L \<le> created_at ev" by simp_all
    show ?thesis using False keep Cons.IH [OF le]
      by (simp add: Let_def)
  qed
qed



section \<open>Properties of the status\<close>

lemma final_stress:
  "last_fed_at f = Some L \<Longrightarrow>
   segments L (storage_location f) 0 (sort_key created_at evs) = (c, loc, s) \<Longrightarrow>
   stress (calculateFermentStatus f evs now) =
     (if c < now then s + hoursBetween c now * locationMultiplier loc else s)"
  by (simp add: calculateFermentStatus_def Let_def hoursBetween_pos_iff)

lemma status_of_stress:
  "last_fed_at f = Some L \<Longrightarrow>
   calculateFermentStatus f evs now =
     \<lparr>stress = stress (calculateFermentStatus f evs now),
      ratio = js_div (stress (calculateFermentStatus f evs now)) (base_feed_interval_hours f),
      label = statusLabel (js_div (stress (calculateFermentStatus f evs now)) (base_feed_interval_hours f))\<rparr>"
  by (simp add: calculateFermentStatus_def Let_def split: prod.splits)

lemma stress_nonneg: "0 \<le> stress (calculateFermentStatus f evs now)"
proof (cases "last_fed_at f")
  case None
  then show ?thesis by (simp add: calculateFermentStatus_def)
next
  case (Some L)
  obtain c loc s where seg: "segments L (storage_location f) 0 (sort_key created_at evs) = (c, loc, s)"
    by (cases "segments L (storage_location f) 0 (sort_key created_at evs)") auto
  have "0 \<le> snd (snd (segments L (storage_location f) 0 (sort_key created_at evs)))"
    by (rule segments_stress_mono)
  with seg have s: "0 \<le> s" by simp
  show ?thesis
  proof (cases "c < now")
    case True
    then have "0 < hoursBetween c now" by (simp add: hoursBetween_pos_iff)
    then have "0 \<le> hoursBetween c now * locationMultiplier loc"
      using locationMultiplier_pos [of loc] by simp
    with s True show ?thesis by (simp add: final_stress [OF Some seg])
  next
    case False
    with s show ?thesis by (simp add: final_stress [OF Some seg])
  qed
qed


lemma segments_stale_prefix:
  assumes "\<forall>e\<in>set pre. created_at e \<le> L"
  shows "segments L loc s (sort_key created_at (pre @ evs)) =
         segments L loc s (sort_key created_at evs)"
proof -
  let ?P = "\<lambda>e. L < created_at e"
  have "filter ?P pre = []" using assms by (auto simp: filter_empty_conv)
  then have "filter ?P (pre @ evs) = filter ?P evs" by simp
  then have "filter ?P (sort_key created_at (pre @ evs)) = filter ?P (sort_key created_at evs)"
    by (simp only: filter_sort)
  then have "segments L loc s (filter ?P (sort_key created_at (pre @ evs))) =
             segments L loc s (filter ?P (sort_key created_at evs))"
    by (simp only:)
  then show ?thesis by (simp only: segments_filter [OF order_refl])
qed

section \<open>The claims\<close>

subsection \<open>C1: single-location equivalence\<close>




subsection \<open>C2: the fridge scenario\<close>

text \<open>
  C2. With \<open>base_feed_interval_hours = 16\<close>, a last feed at any instant \<open>T0\<close>, the
  location \<open>fridge\<close>, no events and a reference time 48 hours after \<open>T0\<close>, the status
  is stress 16, ratio 1 and label \<open>needs_feed\<close>; the multiplier of \<open>counter\<close> is 1 and
  that of \<open>fridge\<close> is one third.
\<close>

theorem fridge_scenario:
  "locationMultiplier (Some ''counter'') = 1 \<and> locationMultiplier (Some ''fridge'') = 1 / 3 \<and>
   calculateFermentStatus
     \<lparr>base_feed_interval_hours = 16, last_fed_at = Some T0, storage_location = Some ''fridge''\<rparr>
     [] (T0 + 48 * 3600000)
   = \<lparr>stress = 16, ratio = Fin 1, label = ''needs_feed''\<rparr>"
  by (simp add: calculateFermentStatus_def Let_def hoursBetween_def locationMultiplier_def
      js_div_def statusLabel_def)

theorem fridge_scenario_witness:
  "calculateFermentStatus
     \<lparr>base_feed_interval_hours = 16, last_fed_at = Some 0, storage_location = Some ''fridge''\<rparr>
     [] 172800000
   = \<lparr>stress = 16, ratio = Fin 1, label = ''needs_feed''\<rparr>"
  using fridge_scenario [of 0] by simp

subsection \<open>C3: the label boundaries\<close>

text \<open>
  C3. Whenever the classifier runs (the last feed is parseable) and the ratio is a finite
  number \<open>r\<close>, the label is \<open>happy\<close> for \<open>r < 0.7\<close>, \<open>due_soon\<close> for
  \<open>0.7 \<le> r < 1\<close> and \<open>needs_feed\<close> for \<open>1 \<le> r\<close>: the boundaries are half-open, 0.7
  itself is \<open>due_soon\<close> and 1 itself is \<open>needs_feed\<close>.
\<close>

theorem label_boundaries:
  assumes "last_fed_at f = Some L"
    and "ratio (calculateFermentStatus f evs now) = Fin r"
  shows "label (calculateFermentStatus f evs now) =
           (if r < 7 / 10 then ''happy'' else if r < 1 then ''due_soon'' else ''needs_feed'')"
proof -
  let ?st = "calculateFermentStatus f evs now"
  have "?st = \<lparr>stress = stress ?st,
      ratio = js_div (stress ?st) (base_feed_interval_hours f),
      label = statusLabel (js_div (stress ?st) (base_feed_interval_hours f))\<rparr>"
    using assms(1) by (rule status_of_stress)
  then have "label ?st = statusLabel (ratio ?st)"
    by (metis status.select_convs(2,3))
  then show ?thesis using assms(2) by (simp add: statusLabel_def)
qed

theorem label_boundaries_witness:
  "label (calculateFermentStatus
       \<lparr>base_feed_interval_hours = 10, last_fed_at = Some 0, storage_location = Some ''counter''\<rparr>
       [] (7 * 3600000)) = ''due_soon''
   \<and> ratio (calculateFermentStatus
       \<lparr>base_feed_interval_hours = 10, last_fed_at = Some 0, storage_location = Some ''counter''\<rparr>
       [] (7 * 3600000)) = Fin (7 / 10)
   \<and> label (calculateFermentStatus
       \<lparr>base_feed_interval_hours = 10, last_fed_at = Some 0, storage_location = Some ''counter''\<rparr>
       [] (10 * 3600000)) = ''needs_feed''
   \<and> ratio (calculateFermentStatus
       \<lparr>base_feed_interval_hours = 10, last_fed_at = Some 0, storage_location = Some ''counter''\<rparr>
       [] (10 * 3600000)) = Fin 1"
  using label_boundaries [of
      "\<lparr>base_feed_interval_hours = 10, last_fed_at = Some 0, storage_location = Some ''counter''\<rparr>"
      0 "[]" "7 * 3600000" "7 / 10"]
    label_boundaries [of
      "\<lparr>base_feed_interval_hours = 10, last_fed_at = Some 0, storage_location = Some ''counter''\<rparr>"
      0 "[]" "10 * 3600000" 1]
  by (simp add: calculateFermentStatus_def Let_def hoursBetween_def locationMultiplier_def
      js_div_def)

subsection \<open>C4: a degenerate base interval\<close>




subsection \<open>C5: an unparseable last feed\<close>

text \<open>
  C5. When \<open>last_fed_at\<close> does not parse, the status is stress 0, ratio 0 and label
  \<open>unknown\<close>, whatever the events, the reference time and the other fields are; the
  function returns a value on this path, it raises nothing.
\<close>

theorem unparseable_last_fed:
  "last_fed_at f = None \<Longrightarrow>
   calculateFermentStatus f evs now = \<lparr>stress = 0, ratio = Fin 0, label = ''unknown''\<rparr>"
  by (simp add: calculateFermentStatus_def)

theorem unparseable_last_fed_witness:
  "calculateFermentStatus
     \<lparr>base_feed_interval_hours = 16, last_fed_at = None, storage_location = Some ''fridge''\<rparr>
     [\<lparr>created_at = 5, new_storage_location = Some ''counter''\<rparr>] 172800000
   = \<lparr>stress = 0, ratio = Fin 0, label = ''unknown''\<rparr>"
  using unparseable_last_fed [of
      "\<lparr>base_feed_interval_hours = 16, last_fed_at = None, storage_location = Some ''fridge''\<rparr>"
      "[\<lparr>created_at = 5, new_storage_location = Some ''counter''\<rparr>]" 172800000]
  by simp


subsection \<open>C6: events at or before the last feed\<close>

text \<open>
  C6. For a parseable \<open>last_fed_at\<close>, prepending to the event list any events dated at or
  before the last feed leaves the whole status unchanged.
\<close>

theorem stale_events_noop:
  assumes "last_fed_at f = Some L" and "\<forall>e\<in>set pre. created_at e \<le> L"
  shows "calculateFermentStatus f (pre @ evs) now = calculateFermentStatus f evs now"
  using assms by (simp add: calculateFermentStatus_def segments_stale_prefix)

theorem stale_events_noop_witness:
  "calculateFermentStatus
     \<lparr>base_feed_interval_hours = 16, last_fed_at = Some 3600000, storage_location = Some ''counter''\<rparr>
     ([\<lparr>created_at = 3600000, new_storage_location = Some ''fridge''\<rparr>,
       \<lparr>created_at = 0, new_storage_location = Some ''fridge''\<rparr>]
      @ [\<lparr>created_at = 7200000, new_storage_location = Some ''fridge''\<rparr>]) 18000000
   = \<lparr>stress = 2, ratio = Fin (1 / 8), label = ''happy''\<rparr>"
  using stale_events_noop [of
      "\<lparr>base_feed_interval_hours = 16, last_fed_at = Some 3600000, storage_location = Some ''counter''\<rparr>"
      3600000
      "[\<lparr>created_at = 3600000, new_storage_location = Some ''fridge''\<rparr>,
        \<lparr>created_at = 0, new_storage_location = Some ''fridge''\<rparr>]"
      "[\<lparr>created_at = 7200000, new_storage_location = Some ''fridge''\<rparr>]" 18000000]
  by (simp add: calculateFermentStatus_def Let_def hoursBetween_def locationMultiplier_def
      js_div_def statusLabel_def)

subsection \<open>C7: monotonicity in the reference time\<close>

text \<open>
  C7. With the record and the events fixed, the stress does not decrease when the reference
  time grows.
\<close>

theorem stress_monotone_in_now:
  assumes "now1 \<le> now2"
  shows "stress (calculateFermentStatus f evs now1) \<le> stress (calculateFermentStatus f evs now2)"
proof (cases "last_fed_at f")
  case None
  then show ?thesis by (simp add: calculateFermentStatus_def)
next
  case (Some L)
  obtain c loc s where seg: "segments L (storage_location f) 0 (sort_key created_at evs) = (c, loc, s)"
    by (cases "segments L (storage_location f) 0 (sort_key created_at evs)") auto
  have m: "0 < locationMultiplier loc" by (rule locationMultiplier_pos)
  show ?thesis
  proof (cases "c < now1")
    case True
    with assms have lt2: "c < now2" by simp
    have "hoursBetween c now1 * locationMultiplier loc \<le> hoursBetween c now2 * locationMultiplier loc"
      using hoursBetween_mono [OF assms, of c] m by (simp add: mult_right_mono)
    with True lt2 show ?thesis
      by (simp add: final_stress [OF Some seg])
  next
    case False
    show ?thesis
    proof (cases "c < now2")
      case True
      then have "0 < hoursBetween c now2" by (simp add: hoursBetween_pos_iff)
      with m have "0 \<le> hoursBetween c now2 * locationMultiplier loc" by simp
      with True False show ?thesis by (simp add: final_stress [OF Some seg])
    next
      case nlt: False
      with False show ?thesis by (simp add: final_stress [OF Some seg])
    qed
  qed
qed

theorem stress_monotone_in_now_witness:
  "stress (calculateFermentStatus
       \<lparr>base_feed_interval_hours = 16, last_fed_at = Some 0, storage_location = Some ''fridge''\<rparr>
       [\<lparr>created_at = 7200000, new_storage_location = Some ''counter''\<rparr>] 3600000)
   \<le> stress (calculateFermentStatus
       \<lparr>base_feed_interval_hours = 16, last_fed_at = Some 0, storage_location = Some ''fridge''\<rparr>
       [\<lparr>created_at = 7200000, new_storage_location = Some ''counter''\<rparr>] 10800000)"
  using stress_monotone_in_now [of 3600000 10800000
      "\<lparr>base_feed_interval_hours = 16, last_fed_at = Some 0, storage_location = Some ''fridge''\<rparr>"
      "[\<lparr>created_at = 7200000, new_storage_location = Some ''counter''\<rparr>]"]
  by simp

subsection \<open>C8: the stress is never negative\<close>

text \<open>
  C8. For every record, event list and reference time the stress is non-negative; the loop
  only ever adds to the running total (a segment is added when its duration is positive, with
  a positive multiplier), so its result is at least the total it started from.
\<close>

theorem stress_never_negative:
  "0 \<le> stress (calculateFermentStatus f evs now)
   \<and> s \<le> snd (snd (segments c loc s evs))"
  using stress_nonneg [of f evs now] segments_stress_mono [of s c loc evs] by (simp only: simp_thms)

theorem stress_never_negative_witness:
  "0 \<le> stress (calculateFermentStatus
       \<lparr>base_feed_interval_hours = 16, last_fed_at = Some 7200000, storage_location = Some ''fridge''\<rparr>
       [\<lparr>created_at = 3600000, new_storage_location = Some ''counter''\<rparr>] 0)
   \<and> (0::real) \<le> snd (snd (segments 7200000 (Some ''fridge'') 0
       [\<lparr>created_at = 3600000, new_storage_location = Some ''counter''\<rparr>]))"
  using stress_never_negative [of
      "\<lparr>base_feed_interval_hours = 16, last_fed_at = Some 7200000, storage_location = Some ''fridge''\<rparr>"
      "[\<lparr>created_at = 3600000, new_storage_location = Some ''counter''\<rparr>]" 0
      0 7200000 "Some ''fridge''"]
  by simp

subsection \<open>C9: a reference time before the last feed\<close>

text \<open>
  C9. For a parseable \<open>last_fed_at\<close>, a positive base interval and no events, a reference
  time strictly before the last feed gives stress 0, ratio 0 and the label \<open>happy\<close>, not
  \<open>unknown\<close>.
\<close>

theorem now_before_last_fed:
  assumes "last_fed_at f = Some L" and "0 < base_feed_interval_hours f" and "now < L"
  shows "calculateFermentStatus f [] now = \<lparr>stress = 0, ratio = Fin 0, label = ''happy''\<rparr>"
  using assms
  by (simp add: calculateFermentStatus_def Let_def hoursBetween_def js_div_def statusLabel_def)

theorem now_before_last_fed_witness:
  "calculateFermentStatus
     \<lparr>base_feed_interval_hours = 16, last_fed_at = Some 3600000, storage_location = Some ''counter''\<rparr>
     [] 0
   = \<lparr>stress = 0, ratio = Fin 0, label = ''happy''\<rparr>"
  using now_before_last_fed [of
      "\<lparr>base_feed_interval_hours = 16, last_fed_at = Some 3600000, storage_location = Some ''counter''\<rparr>"
      3600000 0]
  by simp

subsection \<open>C10: events after the reference time\<close>



end
